theory Spec2Isabelle
  imports Complex_Main
begin

section \<open>Python values used by the evaluation engine\<close>

text \<open>
  The development embeds \<^verbatim>\<open>utils/ragas_metrics.py\<close> (class \<^verbatim>\<open>RAGASMetrics\<close>) and
  \<^verbatim>\<open>utils/batch_evaluator.py\<close> (class \<^verbatim>\<open>BatchEvaluator\<close>).

  Modelling conventions.
  \<^item> A Python \<^verbatim>\<open>str\<close> is a \<^typ>\<open>string\<close> whose characters are code points below 256
    (ASCII and Latin-1, which covers the English and German texts of the repository);
    \<^verbatim>\<open>len\<close> is \<^const>\<open>length\<close>.
  \<^item> A Python \<^verbatim>\<open>float\<close> is a \<^typ>\<open>real\<close>: rounding is not modelled. The one non-number
    the report computes with, NaN (the mean of an empty column), is written \<^term>\<open>None\<close>
    in a \<^typ>\<open>real option\<close>.
  \<^item> Every exception is a value of \<open>py_error\<close>; a function that can raise returns
    \<open>py_error + 'a\<close>.
  \<^item> The services the code calls over the network or through a library (retrieval, answer
    completion, the judge model, the sentence embedder, scipy's t statistic) are the fields
    of a record \<open>world\<close>: each is an arbitrary function of its request, and every theorem
    holds for all of them. No theorem relies on two equal requests getting equal replies.
\<close>

datatype py_error =
    KeyError string
  | ValueError string
  | AttributeError string
  | OtherError string

subsection \<open>Strings\<close>

definition isspace :: "char \<Rightarrow> bool" where
  \<comment> \<open>\<^verbatim>\<open>str.isspace\<close> on one character: TAB..CR, FS..US, space, NEL, NBSP.\<close>
  "isspace c =
     (let n = (of_char c :: nat)
      in (9 \<le> n \<and> n \<le> 13) \<or> (28 \<le> n \<and> n \<le> 32) \<or> n = 133 \<or> n = 160)"

definition isdecimal :: "char \<Rightarrow> bool" where
  \<comment> \<open>the regular expression class \<^verbatim>\<open>\d\<close>\<close>
  "isdecimal c = (let n = (of_char c :: nat) in 48 \<le> n \<and> n \<le> 57)"

definition isdigit :: "char \<Rightarrow> bool" where
  \<comment> \<open>\<^verbatim>\<open>str.isdigit\<close>: the decimal digits and the superscripts 1, 2, 3\<close>
  "isdigit c = (let n = (of_char c :: nat) in isdecimal c \<or> n = 178 \<or> n = 179 \<or> n = 185)"

definition lower_char :: "char \<Rightarrow> char" where
  "lower_char c =
     (let n = (of_char c :: nat)
      in if (65 \<le> n \<and> n \<le> 90) \<or> (192 \<le> n \<and> n \<le> 222 \<and> n \<noteq> 215)
         then char_of (n + 32) else c)"

definition lower :: "string \<Rightarrow> string" where
  "lower s = map lower_char s"

definition upper_char :: "char \<Rightarrow> string" where
  \<comment> \<open>\<^verbatim>\<open>str.upper\<close> on one character; the sharp s becomes two letters, and the two
      Latin-1 letters whose capital lies beyond code point 255 are kept as they are
      (neither they nor their capitals are letters of \<^verbatim>\<open>YES\<close>).\<close>
  "upper_char c =
     (let n = (of_char c :: nat)
      in if n = 223 then ''SS''
         else if (97 \<le> n \<and> n \<le> 122) \<or> (224 \<le> n \<and> n \<le> 254 \<and> n \<noteq> 247)
         then [char_of (n - 32)] else [c])"

definition upper :: "string \<Rightarrow> string" where
  "upper s = concat (map upper_char s)"

definition strip :: "string \<Rightarrow> string" where
  "strip s = rev (dropWhile isspace (rev (dropWhile isspace s)))"

fun split_on :: "char \<Rightarrow> string \<Rightarrow> string list" where
  \<comment> \<open>\<^verbatim>\<open>s.split(sep)\<close> for a one-character separator\<close>
  "split_on d [] = [Nil]"
| "split_on d (c # cs) =
     (if c = d then [] # split_on d cs
      else (case split_on d cs of [] \<Rightarrow> [c # Nil] | w # ws \<Rightarrow> (c # w) # ws))"

fun split_ws :: "string \<Rightarrow> string \<Rightarrow> string list" where
  \<comment> \<open>\<^verbatim>\<open>s.split()\<close>: the maximal runs of non-whitespace; the first argument is the
      word being read\<close>
  "split_ws w [] = (if w = [] then [] else [w])"
| "split_ws w (c # cs) =
     (if isspace c then (if w = [] then split_ws [] cs else w # split_ws [] cs)
      else split_ws (w @ [c]) cs)"

definition split :: "string \<Rightarrow> string list" where
  "split s = split_ws [] s"

fun str_in :: "string \<Rightarrow> string \<Rightarrow> bool" where
  \<comment> \<open>\<^verbatim>\<open>t in s\<close>: \<open>t\<close> occurs in \<open>s\<close> as a contiguous substring\<close>
  "str_in t [] = (t = [])"
| "str_in t (c # cs) = (take (length t) (c # cs) = t \<or> str_in t cs)"

fun join :: "string \<Rightarrow> string list \<Rightarrow> string" where
  \<comment> \<open>\<^verbatim>\<open>sep.join(xs)\<close>\<close>
  "join sep [] = []"
| "join sep [x] = x"
| "join sep (x # y # ys) = x @ sep @ join sep (y # ys)"

definition strip_numbering :: "string \<Rightarrow> string" where
  \<comment> \<open>\<^verbatim>\<open>re.sub(r'^\d+\.\s*', '', claim)\<close>\<close>
  "strip_numbering claim =
     (let ds = takeWhile isdecimal claim; rest = dropWhile isdecimal claim
      in if ds \<noteq> [] \<and> take 1 rest = ''.'' then dropWhile isspace (drop 1 rest) else claim)"

subsection \<open>External services\<close>

datatype system = Original | Reranked

datatype chunk =
    DictChunk "(string \<times> string) list"  \<comment> \<open>a passage: a dict from field names to text\<close>
  | OtherChunk                            \<comment> \<open>any entry of the passage list that is no dict\<close>

datatype chunks_value = ChunkList "chunk list" | NotAList

record system_result =
  chunks :: chunks_value
  time_ms :: real
  error :: "string option"

record world =
  retrieve :: "string \<Rightarrow> string list \<Rightarrow> string list \<Rightarrow> nat
                \<Rightarrow> py_error + (system \<Rightarrow> system_result)"
    \<comment> \<open>\<^verbatim>\<open>VectorServiceCaller.fetch_both_systems(query, folder_ids, unique_titles, top_k)\<close>;
        \<open>Inl\<close> when the call raises\<close>
  complete :: "string \<Rightarrow> chunk list \<Rightarrow> string"
    \<comment> \<open>the chat completion behind \<^verbatim>\<open>AnswerGenerator.generate_answer\<close>, which turns every
        failure of the request into an error text\<close>
  call_llm :: "string \<Rightarrow> string"
    \<comment> \<open>\<^verbatim>\<open>RAGASMetrics._call_llm(prompt)\<close>: the judge's text, empty on any failure\<close>
  cos_sim :: "string \<Rightarrow> string \<Rightarrow> real"
    \<comment> \<open>cosine similarity of the sentence embeddings of two texts\<close>
  ttest_stat :: "real list \<Rightarrow> real list \<Rightarrow> real option \<times> real option"
    \<comment> \<open>the statistic and p-value \<^verbatim>\<open>scipy.stats.ttest_rel\<close> computes for two arrays of
        equal length (\<open>None\<close> is NaN)\<close>

section \<open>The metrics engine\<close>

definition indent8 :: string where
  "indent8 = replicate 8 CHR '' ''"

definition indent12 :: string where
  "indent12 = replicate 12 CHR '' ''"

definition nl :: string where
  "nl = [CHR 0x0A]"

subsection \<open>Faithfulness\<close>

definition claims_prompt :: "string \<Rightarrow> string" where
  "claims_prompt answer =
     ''Extract all factual claims from this answer. '' @ nl @
     indent8 @ ''List each claim on a new line, numbered.'' @ nl @
     indent8 @ nl @
     indent8 @ ''Answer: '' @ answer @ nl @
     indent8 @ nl @
     indent8 @ ''Claims:''"

definition verify_prompt :: "string \<Rightarrow> string \<Rightarrow> string" where
  "verify_prompt context_text claim_text =
     ''Based on the following context, can this claim be verified as true?'' @ nl @
     indent12 @ ''Answer only '' @ [CHR 0x27] @ ''YES'' @ [CHR 0x27] @ '' or '' @
       [CHR 0x27] @ ''NO'' @ [CHR 0x27] @ ''.'' @ nl @
     indent12 @ nl @
     indent12 @ ''Context: '' @ take 3000 context_text @ nl @
     indent12 @ nl @
     indent12 @ ''Claim: '' @ claim_text @ nl @
     indent12 @ nl @
     indent12 @ ''Answer:''"

definition extract_claims :: "world \<Rightarrow> string \<Rightarrow> string list" where
  \<comment> \<open>the numbered lines of the judge's reply, stripped\<close>
  "extract_claims w answer =
     [strip c. c \<leftarrow> split_on CHR 0x0A (call_llm w (claims_prompt answer)),
               strip c \<noteq> [] \<and> isdigit (hd c)]"

definition claim_supported :: "world \<Rightarrow> string \<Rightarrow> string \<Rightarrow> bool" where
  \<comment> \<open>the body of the verification loop for one claim\<close>
  "claim_supported w context_text claim =
     (let claim_text = strip_numbering claim;
          verification = upper (strip (call_llm w (verify_prompt context_text claim_text)))
      in str_in ''YES'' verification)"

fun count_supported :: "world \<Rightarrow> string \<Rightarrow> string list \<Rightarrow> nat \<Rightarrow> nat" where
  \<comment> \<open>the loop \<^verbatim>\<open>for claim in claims\<close>, with the counter \<^verbatim>\<open>supported_claims\<close>\<close>
  "count_supported w context_text [] supported_claims = supported_claims"
| "count_supported w context_text (claim # rest) supported_claims =
     count_supported w context_text rest
       (if claim_supported w context_text claim then supported_claims + 1
        else supported_claims)"

definition calculate_faithfulness :: "world \<Rightarrow> string \<Rightarrow> string list \<Rightarrow> real" where
  "calculate_faithfulness w answer contexts =
     (let claims = extract_claims w answer
      in if claims = [] then 1
         else let context_text = join nl contexts;
                  supported_claims = count_supported w context_text claims 0
              in real supported_claims / real (length claims))"

subsection \<open>Answer relevancy\<close>

definition questions_prompt :: "string \<Rightarrow> string" where
  "questions_prompt answer =
     ''Based on this answer, generate 3 questions that this answer would address.'' @ nl @
     indent8 @ ''List each question on a new line.'' @ nl @
     indent8 @ nl @
     indent8 @ ''Answer: '' @ answer @ nl @
     indent8 @ nl @
     indent8 @ ''Questions:''"

definition mean :: "real list \<Rightarrow> real" where
  \<comment> \<open>\<^verbatim>\<open>np.mean\<close> of a non-empty array\<close>
  "mean xs = sum_list xs / real (length xs)"

definition calculate_answer_relevancy :: "world \<Rightarrow> string \<Rightarrow> string \<Rightarrow> real" where
  "calculate_answer_relevancy w question answer =
     (let questions = [strip q. q \<leftarrow> split_on CHR 0x0A (call_llm w (questions_prompt answer)),
                                strip q \<noteq> []]
      in if questions = [] then 0.5
         else mean (map (cos_sim w question) questions))"

subsection \<open>Context precision\<close>

definition relevance_prompt :: "string \<Rightarrow> string \<Rightarrow> string" where
  "relevance_prompt question context =
     ''Is this context relevant for answering the question?'' @ nl @
     indent12 @ ''Answer only '' @ [CHR 0x27] @ ''YES'' @ [CHR 0x27] @ '' or '' @
       [CHR 0x27] @ ''NO'' @ [CHR 0x27] @ ''.'' @ nl @
     indent12 @ nl @
     indent12 @ ''Question: '' @ question @ nl @
     indent12 @ ''Context: '' @ take 500 context @ nl @
     indent12 @ nl @
     indent12 @ ''Answer:''"

definition context_relevant :: "world \<Rightarrow> string \<Rightarrow> string \<Rightarrow> bool" where
  "context_relevant w question context =
     str_in ''YES'' (upper (strip (call_llm w (relevance_prompt question context))))"

definition calculate_context_precision :: "world \<Rightarrow> string \<Rightarrow> string list \<Rightarrow> nat \<Rightarrow> real" where
  "calculate_context_precision w question contexts k =
     (let relevant_positions =
            [i. (i, context) \<leftarrow> zip [1 ..< Suc (length (take k contexts))] (take k contexts),
                context_relevant w question context]
      in if relevant_positions = [] then 0
         else let precision_score = (\<Sum>pos\<leftarrow>relevant_positions. 1 / real pos) / real k
              in min precision_score 1)"

subsection \<open>Context recall\<close>

definition calculate_context_recall :: "string \<Rightarrow> string list \<Rightarrow> real" where
  "calculate_context_recall ground_truth contexts =
     (if contexts = [] then 0
      else let ground_truth_lower = lower ground_truth;
               context_text_lower = lower (join '' '' contexts);
               key_terms = take 5 (split ground_truth_lower);
               found_terms = (\<Sum>term\<leftarrow>[t \<leftarrow> key_terms. str_in t context_text_lower]. (1::nat))
           in if found_terms > 0 then real found_terms / real (length key_terms) else 0)"

subsection \<open>Answer correctness\<close>

record correctness =
  f1_score :: real
  semantic_similarity :: real
  standard_correctness :: real
  advanced_correctness :: real
  all_facts_present :: bool

definition facts_prompt :: "string \<Rightarrow> string" where
  "facts_prompt text =
     ''Extract all factual statements from this text.'' @ nl @
     indent12 @ ''List each fact on a new line.'' @ nl @
     indent12 @ nl @
     indent12 @ ''Text: '' @ text @ nl @
     indent12 @ nl @
     indent12 @ ''Facts:''"

definition extract_facts :: "world \<Rightarrow> string \<Rightarrow> string list" where
  "extract_facts w text =
     [strip f. f \<leftarrow> split_on CHR 0x0A (call_llm w (facts_prompt text)), strip f \<noteq> []]"

definition fact_f1 :: "string list \<Rightarrow> string list \<Rightarrow> real" where
  \<comment> \<open>the F1-like score; a Python set of strings is its list of distinct elements\<close>
  "fact_f1 answer_facts truth_facts =
     (if answer_facts = [] \<and> truth_facts = [] then 1
      else if answer_facts = [] \<or> truth_facts = [] then 0
      else let answer_set = remdups answer_facts;
               truth_set = remdups truth_facts;
               tp = length [f \<leftarrow> answer_set. f \<in> set truth_set];
               fp = length [f \<leftarrow> answer_set. f \<notin> set truth_set];
               fn = length [f \<leftarrow> truth_set. f \<notin> set answer_set];
               precision = (if tp + fp > 0 then real tp / real (tp + fp) else 0);
               recall = (if tp + fn > 0 then real tp / real (tp + fn) else 0)
           in if precision + recall > 0 then 2 * precision * recall / (precision + recall)
              else 0)"

definition key_terms_of :: "string \<Rightarrow> string list" where
  \<comment> \<open>the loop \<^verbatim>\<open>for word in ground_truth_lower.split()\<close> that keeps the words longer
      than three characters\<close>
  "key_terms_of ground_truth_lower = [word \<leftarrow> split ground_truth_lower. length word > 3]"

definition term_coverage :: "string \<Rightarrow> string \<Rightarrow> real" where
  "term_coverage answer ground_truth =
     (let ground_truth_lower = lower ground_truth;
          answer_lower = lower answer;
          key_terms = key_terms_of ground_truth_lower;
          found_terms = (\<Sum>term\<leftarrow>[t \<leftarrow> key_terms. str_in t answer_lower]. (1::nat))
      in if key_terms \<noteq> [] then real found_terms / real (length key_terms) else 0)"

definition calculate_answer_correctness :: "world \<Rightarrow> string \<Rightarrow> string \<Rightarrow> correctness" where
  "calculate_answer_correctness w answer ground_truth =
     (let answer_facts = extract_facts w answer;
          truth_facts = extract_facts w ground_truth;
          f1 = fact_f1 answer_facts truth_facts;
          semantic_sim = cos_sim w answer ground_truth;
          coverage = term_coverage answer ground_truth;
          advanced = (if coverage \<ge> 0.8 then max 0.8 (f1 * 0.3 + semantic_sim * 0.7)
                      else f1 * 0.5 + semantic_sim * 0.5)
      in \<lparr> f1_score = f1,
           semantic_similarity = semantic_sim,
           standard_correctness = f1 * 0.5 + semantic_sim * 0.5,
           advanced_correctness = advanced,
           all_facts_present = (coverage \<ge> 0.8) \<rparr>)"

section \<open>The batch evaluator\<close>

subsection \<open>Refusal detection\<close>

definition english_patterns :: "string list" where
  "english_patterns =
     [''do not provide information'',
      ''do not contain information'',
      ''cannot answer'',
      ''can'' @ [CHR 0x27] @ ''t answer'',
      ''unable to answer'',
      ''no information found'',
      ''could not find'',
      ''not found in the documents'',
      ''documents don'' @ [CHR 0x27] @ ''t contain'',
      ''if you could provide more context'']"

definition german_patterns :: "string list" where
  "german_patterns =
     [''keine information'',
      ''nicht gefunden'',
      ''kann nicht beantworten'',
      ''keine antwort'',
      ''nicht in den dokumenten'',
      ''dokumente enthalten nicht'',
      ''nicht verf'' @ [CHR 0xFC] @ ''gbar'',
      ''keine angaben'',
      ''wenn sie mehr kontext'']"

definition is_refusal_answer :: "string \<Rightarrow> bool" where
  "is_refusal_answer answer =
     (let answer_lower = lower answer
      in list_ex (\<lambda>pattern. str_in pattern answer_lower) (english_patterns @ german_patterns))"

subsection \<open>One question\<close>

record metric_set =
  faithfulness :: real
  answer_relevancy :: real
  context_precision :: real
  context_recall :: real
  answer_correctness :: correctness
  response_time_ms :: real
  answer :: string
  refused_to_answer :: bool

record evaluation =
  question_id :: string
  question :: string
  ground_truth :: string
  original_metrics :: "metric_set option"   \<comment> \<open>\<open>None\<close>: the key is absent\<close>
  reranked_metrics :: "metric_set option"

definition is_dict :: "chunk \<Rightarrow> bool" where
  "is_dict c = (case c of DictChunk _ \<Rightarrow> True | OtherChunk \<Rightarrow> False)"

definition chunk_get :: "chunk \<Rightarrow> string \<Rightarrow> string" where
  \<comment> \<open>\<^verbatim>\<open>chunk.get(key, '')\<close> on a dict\<close>
  "chunk_get c key =
     (case c of DictChunk kvs \<Rightarrow> (case map_of kvs key of Some v \<Rightarrow> v | None \<Rightarrow> [])
              | OtherChunk \<Rightarrow> [])"

definition generate_answer :: "world \<Rightarrow> string \<Rightarrow> chunk list \<Rightarrow> py_error + string" where
  \<comment> \<open>\<^verbatim>\<open>AnswerGenerator.generate_answer\<close>: the loop that formats the passages calls
      \<^verbatim>\<open>chunk.get\<close> on every entry, outside the \<^verbatim>\<open>try\<close>, so an entry that is no dict
      raises; the request itself never does\<close>
  "generate_answer w q cs =
     (if list_all is_dict cs then Inr (complete w q cs)
      else Inl (AttributeError ''get''))"

definition truthy :: "string option \<Rightarrow> bool" where
  \<comment> \<open>Python truth of \<^verbatim>\<open>results[system].get('error')\<close>\<close>
  "truthy e = (case e of None \<Rightarrow> False | Some s \<Rightarrow> s \<noteq> [])"

definition chunk_contexts :: "chunk list \<Rightarrow> string list" where
  \<comment> \<open>\<^verbatim>\<open>[chunk.get('content', '') for chunk in chunks if isinstance(chunk, dict)]\<close>\<close>
  "chunk_contexts cs = map (\<lambda>c. chunk_get c ''content'') (filter is_dict cs)"

definition system_metrics :: "world \<Rightarrow> string \<Rightarrow> string \<Rightarrow> system_result \<Rightarrow> metric_set option" where
  \<comment> \<open>the body of the loop \<^verbatim>\<open>for system in ['original', 'reranked']\<close>: \<open>None\<close> on every
      \<^verbatim>\<open>continue\<close>, also the one of the \<^verbatim>\<open>except\<close> clause\<close>
  "system_metrics w q gt r =
     (if truthy (error r) then None
      else case chunks r of
             NotAList \<Rightarrow> None
           | ChunkList cs \<Rightarrow>
               if cs = [] then None
               else let contexts = chunk_contexts cs
                    in if contexts = [] then None
                       else (case generate_answer w q cs of
                               Inl e \<Rightarrow> None
                             | Inr ans \<Rightarrow>
                                 Some \<lparr> faithfulness = calculate_faithfulness w ans contexts,
                                        answer_relevancy = calculate_answer_relevancy w q ans,
                                        context_precision = calculate_context_precision w q contexts 5,
                                        context_recall = calculate_context_recall gt contexts,
                                        answer_correctness = calculate_answer_correctness w ans gt,
                                        response_time_ms = time_ms r,
                                        answer = ans,
                                        refused_to_answer = is_refusal_answer ans \<rparr>))"

definition set_metrics :: "system \<Rightarrow> metric_set \<Rightarrow> evaluation \<Rightarrow> evaluation" where
  \<comment> \<open>\<^verbatim>\<open>evaluation[f'{system}_metrics'] = metrics\<close>\<close>
  "set_metrics s m ev =
     (case s of Original \<Rightarrow> ev\<lparr>original_metrics := Some m\<rparr>
              | Reranked \<Rightarrow> ev\<lparr>reranked_metrics := Some m\<rparr>)"

definition metrics_of :: "system \<Rightarrow> evaluation \<Rightarrow> metric_set option" where
  "metrics_of s ev = (case s of Original \<Rightarrow> original_metrics ev | Reranked \<Rightarrow> reranked_metrics ev)"

type_synonym question_data = "string \<rightharpoonup> string"

definition evaluate_single_question ::
    "world \<Rightarrow> question_data \<Rightarrow> string list \<Rightarrow> string list \<Rightarrow> py_error + evaluation" where
  "evaluate_single_question w question_data folder_ids unique_titles =
     (case question_data ''question'' of
        None \<Rightarrow> Inl (KeyError ''question'')
      | Some q \<Rightarrow>
     (case question_data ''ground_truth'' of
        None \<Rightarrow> Inl (KeyError ''ground_truth'')
      | Some gt \<Rightarrow>
     (case retrieve w q folder_ids unique_titles 10 of
        Inl e \<Rightarrow> Inl e
      | Inr results \<Rightarrow>
     (case question_data ''id'' of
        None \<Rightarrow> Inl (KeyError ''id'')
      | Some qid \<Rightarrow>
          Inr (foldl (\<lambda>ev s. case system_metrics w q gt (results s) of
                                None \<Rightarrow> ev
                              | Some m \<Rightarrow> set_metrics s m ev)
                 \<lparr> question_id = qid, question = q, ground_truth = gt,
                   original_metrics = None, reranked_metrics = None \<rparr>
                 [Original, Reranked])))))"

subsection \<open>The batch\<close>

text \<open>
  \<^verbatim>\<open>batch_evaluate\<close>, \<^verbatim>\<open>_create_results_dataframe\<close> and \<^verbatim>\<open>generate_report\<close> are embedded
  as the methods the dashboard calls (\<^verbatim>\<open>evaluator.batch_evaluate(...)\<close>,
  \<^verbatim>\<open>evaluator.generate_report(df)\<close>). In \<^verbatim>\<open>batch_evaluator.py\<close> their \<^verbatim>\<open>def\<close> lines are
  indented under the module-level function \<^verbatim>\<open>batch_evaluate_separate\<close>, after its
  \<^verbatim>\<open>return\<close>; the bodies are taken as written.
\<close>

fun evaluate_all ::
    "world \<Rightarrow> string list \<Rightarrow> string list \<Rightarrow> question_data list \<Rightarrow> evaluation list
      \<Rightarrow> py_error + evaluation list" where
  \<comment> \<open>the loop of \<^verbatim>\<open>batch_evaluate\<close> over the questions, with the list \<^verbatim>\<open>all_results\<close>;
      the progress line reads \<^verbatim>\<open>question_data['id']\<close> before the \<^verbatim>\<open>try\<close>\<close>
  "evaluate_all w folder_ids unique_titles [] all_results = Inr all_results"
| "evaluate_all w folder_ids unique_titles (question_data # rest) all_results =
     (case question_data ''id'' of
        None \<Rightarrow> Inl (KeyError ''id'')
      | Some _ \<Rightarrow>
          (case evaluate_single_question w question_data folder_ids unique_titles of
             Inl e \<Rightarrow> evaluate_all w folder_ids unique_titles rest all_results
           | Inr result \<Rightarrow> evaluate_all w folder_ids unique_titles rest (all_results @ [result])))"

datatype column =
    Faithfulness | AnswerRelevancy | ContextPrecision | ContextRecall
  | AnswerCorrectnessStandard | AnswerCorrectnessAdvanced | SemanticSimilarity
  | ResponseTimeMs | RefusedToAnswer

definition metric_value :: "column \<Rightarrow> metric_set \<Rightarrow> real" where
  \<comment> \<open>the value a metric set contributes to a numeric column of the results frame; a bool
      counts as 0 or 1 in a mean\<close>
  "metric_value c m =
     (case c of
        Faithfulness \<Rightarrow> faithfulness m
      | AnswerRelevancy \<Rightarrow> answer_relevancy m
      | ContextPrecision \<Rightarrow> context_precision m
      | ContextRecall \<Rightarrow> context_recall m
      | AnswerCorrectnessStandard \<Rightarrow> standard_correctness (answer_correctness m)
      | AnswerCorrectnessAdvanced \<Rightarrow> advanced_correctness (answer_correctness m)
      | SemanticSimilarity \<Rightarrow> semantic_similarity (answer_correctness m)
      | ResponseTimeMs \<Rightarrow> response_time_ms m
      | RefusedToAnswer \<Rightarrow> (if refused_to_answer m then 1 else 0))"

record row =
  row_question_id :: string
  row_system :: system
  row_metrics :: metric_set

definition cell :: "column \<Rightarrow> row \<Rightarrow> real" where
  "cell c r = metric_value c (row_metrics r)"

datatype dataframe =
    NoColumns          \<comment> \<open>\<^verbatim>\<open>pd.DataFrame()\<close>: no rows and no columns\<close>
  | Frame "row list"   \<comment> \<open>\<^verbatim>\<open>pd.DataFrame(metrics_data)\<close>: the columns of the row dicts\<close>

definition result_rows :: "evaluation \<Rightarrow> row list" where
  \<comment> \<open>the inner loop of \<^verbatim>\<open>_create_results_dataframe\<close> for one result\<close>
  "result_rows result =
     concat (map (\<lambda>s. case metrics_of s result of
                         None \<Rightarrow> []
                       | Some m \<Rightarrow> [\<lparr> row_question_id = question_id result,
                                      row_system = s, row_metrics = m \<rparr>])
                 [Original, Reranked])"

definition create_results_dataframe :: "evaluation list \<Rightarrow> dataframe" where
  "create_results_dataframe results =
     (let metrics_data = concat (map result_rows results)
      in if metrics_data = [] then NoColumns else Frame metrics_data)"

definition batch_evaluate ::
    "world \<Rightarrow> question_data list \<Rightarrow> string list \<Rightarrow> string list
      \<Rightarrow> py_error + (dataframe \<times> evaluation list)" where
  "batch_evaluate w questions folder_ids unique_titles =
     (case evaluate_all w folder_ids unique_titles questions [] of
        Inl e \<Rightarrow> Inl e
      | Inr all_results \<Rightarrow> Inr (create_results_dataframe all_results, all_results))"

subsection \<open>The report\<close>

definition select_system :: "system \<Rightarrow> row list \<Rightarrow> row list" where
  \<comment> \<open>\<^verbatim>\<open>df[df['system'] == s]\<close>\<close>
  "select_system s rows = [r \<leftarrow> rows. row_system r = s]"

definition nan_mean :: "real list \<Rightarrow> real option" where
  \<comment> \<open>the pandas mean of a column: NaN when the column has no rows\<close>
  "nan_mean xs = (if xs = [] then None else Some (sum_list xs / real (length xs)))"

definition column_mean :: "column \<Rightarrow> row list \<Rightarrow> real option" where
  \<comment> \<open>one entry of \<^verbatim>\<open>.mean(numeric_only=True)\<close>\<close>
  "column_mean c rows = nan_mean (map (cell c) rows)"

definition system_means :: "system \<Rightarrow> dataframe \<Rightarrow> py_error + (column \<Rightarrow> real option)" where
  \<comment> \<open>\<^verbatim>\<open>df[df['system'] == s].mean(numeric_only=True)\<close>; a frame without columns has
      no column \<^verbatim>\<open>system\<close> to select on\<close>
  "system_means s df =
     (case df of
        NoColumns \<Rightarrow> Inl (KeyError ''system'')
      | Frame rows \<Rightarrow> Inr (\<lambda>c. column_mean c (select_system s rows)))"

definition numeric_columns :: "column list" where
  \<comment> \<open>the index of the two series of means\<close>
  "numeric_columns =
     [Faithfulness, AnswerRelevancy, ContextPrecision, ContextRecall,
      AnswerCorrectnessStandard, AnswerCorrectnessAdvanced, SemanticSimilarity,
      ResponseTimeMs, RefusedToAnswer]"

datatype improvement =
    Percent real
  | Infinite       \<comment> \<open>\<^verbatim>\<open>float('inf')\<close>\<close>
  | NotANumber     \<comment> \<open>the quotient when a mean is NaN\<close>

definition improvement_of :: "real option \<Rightarrow> real option \<Rightarrow> improvement" where
  \<comment> \<open>the body of the loop over \<^verbatim>\<open>original_metrics.index\<close>; a NaN equals nothing\<close>
  "improvement_of original_val reranked_val =
     (if original_val = Some 0 then
        (if reranked_val = Some 0 then Percent 0 else Infinite)
      else (case (original_val, reranked_val) of
              (Some a, Some b) \<Rightarrow> Percent ((b - a) / a * 100)
            | _ \<Rightarrow> NotANumber))"

record significance =
  t_stat :: "real option"
  p_value :: "real option"
  significant :: bool

definition ttest_rel :: "world \<Rightarrow> real list \<Rightarrow> real list \<Rightarrow> py_error + (real option \<times> real option)" where
  \<comment> \<open>\<^verbatim>\<open>scipy.stats.ttest_rel(a, b)\<close>: arrays of different lengths are rejected\<close>
  "ttest_rel w a b =
     (if length a \<noteq> length b then Inl (ValueError ''unequal length arrays'')
      else Inr (ttest_stat w a b))"

definition nan_less :: "real option \<Rightarrow> real \<Rightarrow> bool" where
  \<comment> \<open>\<^verbatim>\<open>p_value < x\<close>: false for NaN\<close>
  "nan_less p x = (case p of None \<Rightarrow> False | Some v \<Rightarrow> v < x)"

fun significance_of :: "world \<Rightarrow> row list \<Rightarrow> column list \<Rightarrow> py_error + (column \<times> significance) list" where
  \<comment> \<open>the loop over the four core metrics\<close>
  "significance_of w rows [] = Inr []"
| "significance_of w rows (metric # rest) =
     (let original_values = map (cell metric) (select_system Original rows);
          reranked_values = map (cell metric) (select_system Reranked rows)
      in case ttest_rel w reranked_values original_values of
           Inl e \<Rightarrow> Inl e
         | Inr (t, p) \<Rightarrow>
             (case significance_of w rows rest of
                Inl e \<Rightarrow> Inl e
              | Inr sig \<Rightarrow>
                  Inr ((metric, \<lparr> t_stat = t, p_value = p, significant = nan_less p 0.05 \<rparr>) # sig)))"

record miss_stats =
  original_misses :: nat
  original_miss_rate :: real
  reranked_misses :: nat
  reranked_miss_rate :: real
  miss_reduction :: int

record report =
  rep_original_metrics :: "column \<Rightarrow> real option"
  rep_reranked_metrics :: "column \<Rightarrow> real option"
  rep_improvements :: "(column \<times> improvement) list"
  statistical_significance :: "(column \<times> significance) list"
  total_questions :: nat
  miss_statistics :: "miss_stats option"

definition misses :: "system \<Rightarrow> row list \<Rightarrow> nat" where
  "misses s rows = length [r \<leftarrow> rows. row_system r = s \<and> refused_to_answer (row_metrics r)]"

definition frame_rows :: "dataframe \<Rightarrow> row list" where
  "frame_rows df = (case df of NoColumns \<Rightarrow> [] | Frame rows \<Rightarrow> rows)"

definition miss_statistics_of :: "row list \<Rightarrow> miss_stats" where
  \<comment> \<open>the block under \<^verbatim>\<open>if not df.empty\<close>\<close>
  "miss_statistics_of rows =
     (let om = misses Original rows;
          rm = misses Reranked rows;
          total = length rows div 2
      in \<lparr> original_misses = om,
           original_miss_rate = (if total > 0 then real om / real total * 100 else 0),
           reranked_misses = rm,
           reranked_miss_rate = (if total > 0 then real rm / real total * 100 else 0),
           miss_reduction = int om - int rm \<rparr>)"

definition generate_report :: "world \<Rightarrow> dataframe \<Rightarrow> py_error + report" where
  "generate_report w df =
     (case system_means Original df of
        Inl e \<Rightarrow> Inl e
      | Inr original_means \<Rightarrow>
     (case system_means Reranked df of
        Inl e \<Rightarrow> Inl e
      | Inr reranked_means \<Rightarrow>
     (let rows = frame_rows df;
          improvements =
            map (\<lambda>metric. (metric, improvement_of (original_means metric) (reranked_means metric)))
              (filter (\<lambda>metric. metric \<noteq> ResponseTimeMs) numeric_columns)
      in case significance_of w rows
                [Faithfulness, AnswerRelevancy, ContextPrecision, ContextRecall] of
           Inl e \<Rightarrow> Inl e
         | Inr sig \<Rightarrow>
             Inr \<lparr> rep_original_metrics = original_means,
                   rep_reranked_metrics = reranked_means,
                   rep_improvements = improvements,
                   statistical_significance = sig,
                   total_questions = length rows div 2,
                   miss_statistics =
                     (if rows \<noteq> [] then Some (miss_statistics_of rows) else None) \<rparr>)))"

section \<open>Notions of the specification\<close>

definition covered_fraction :: "string \<Rightarrow> string \<Rightarrow> real" where
  \<comment> \<open>the fraction of the ground-truth words longer than three characters that occur,
      ignoring case, in the answer; 0 when there is no such word\<close>
  "covered_fraction ans gt =
     (let words = [word \<leftarrow> split gt. length word > 3];
          present = [word \<leftarrow> words. str_in (lower word) (lower ans)]
      in if words = [] then 0 else real (length present) / real (length words))"

definition usable :: "system_result \<Rightarrow> bool" where
  \<comment> \<open>a result the loop body scores: no error text, and a non-empty list of passages that
      are all dict-shaped\<close>
  "usable r =
     (\<not> truthy (error r) \<and>
      (case chunks r of NotAList \<Rightarrow> False | ChunkList cs \<Rightarrow> cs \<noteq> [] \<and> list_all is_dict cs))"






section \<open>Example inputs\<close>

definition demo_judge :: "string \<Rightarrow> string" where
  \<comment> \<open>a judge that tells the five prompts apart by their first words\<close>
  "demo_judge prompt =
     (if take 26 prompt = ''Extract all factual claims'' then
        ''1. Paris is the capital of France.'' @ nl @ ''2. Paris lies on the Thames.''
      else if take 30 prompt = ''Extract all factual statements'' then
        ''Paris is the capital of France.''
      else if take 22 prompt = ''Based on the following'' then
        (if str_in ''Thames'' prompt then ''NO'' else ''YES'')
      else if take 20 prompt = ''Based on this answer'' then
        ''What is the capital of France?'' @ nl @ ''Where is Paris?''
      else if take 15 prompt = ''Is this context'' then
        (if str_in ''Context: Paris'' prompt then ''YES'' else ''NO'')
      else [])"

definition demo_passages :: "chunk list" where
  "demo_passages =
     [DictChunk [(''title'', ''France''),
                 (''content'', ''Paris is the capital and largest city of France.'')],
      DictChunk [(''title'', ''Germany''), (''content'', ''Berlin is the capital of Germany.'')]]"

definition demo_retrieve ::
    "string \<Rightarrow> string list \<Rightarrow> string list \<Rightarrow> nat \<Rightarrow> py_error + (system \<Rightarrow> system_result)" where
  \<comment> \<open>the reranked backend fails on the second question\<close>
  "demo_retrieve q folder_ids unique_titles top_k =
     Inr (\<lambda>s. if s = Reranked \<and> q = ''Where is Paris?''
               then \<lparr> chunks = ChunkList [], time_ms = 0,
                      error = Some ''Request failed: timed out'' \<rparr>
               else \<lparr> chunks = ChunkList demo_passages, time_ms = 120, error = None \<rparr>)"

definition demo_world :: world where
  "demo_world =
     \<lparr> retrieve = demo_retrieve,
       complete = (\<lambda>q cs. ''Paris is the capital of France [1].''),
       call_llm = demo_judge,
       cos_sim = (\<lambda>a b. if a = b then 1 else 1 / 2),
       ttest_stat = (\<lambda>a b. (None, None)) \<rparr>"

definition cold_world :: world where
  \<comment> \<open>an embedder under which different texts have a negative cosine similarity\<close>
  "cold_world = demo_world \<lparr> cos_sim := (\<lambda>a b. if a = b then 1 else - 1 / 10) \<rparr>"


definition down_world :: world where
  \<comment> \<open>both backends are unreachable\<close>
  "down_world =
     demo_world \<lparr> retrieve := (\<lambda>q folder_ids unique_titles top_k.
        Inr (\<lambda>s. \<lparr> chunks = ChunkList [], time_ms = 0,
                      error = Some ''Request failed: connection refused'' \<rparr>)) \<rparr>"

definition mk_question :: "string \<Rightarrow> string \<Rightarrow> string \<Rightarrow> question_data" where
  "mk_question qid q gt = [''id'' \<mapsto> qid, ''question'' \<mapsto> q, ''ground_truth'' \<mapsto> gt]"

definition demo_questions :: "question_data list" where
  "demo_questions =
     [mk_question ''q1'' ''What is the capital of France?'' ''Paris is the capital of France'',
      mk_question ''q2'' ''Where is Paris?'' ''Paris lies in France'',
      mk_question ''q3'' ''Which city is the capital of Germany?''
        ''Berlin is the capital of Germany'']"

definition example_metrics :: "real \<Rightarrow> real \<Rightarrow> metric_set" where
  "example_metrics score t =
     \<lparr> faithfulness = score, answer_relevancy = score, context_precision = score,
       context_recall = score,
       answer_correctness = \<lparr> f1_score = score, semantic_similarity = score,
                              standard_correctness = score, advanced_correctness = score,
                              all_facts_present = False \<rparr>,
       response_time_ms = t, answer = ''Paris'', refused_to_answer = False \<rparr>"

definition example_records :: "evaluation list" where
  \<comment> \<open>three questions, two of which carry reranked metrics\<close>
  "example_records =
     [\<lparr> question_id = ''q1'', question = ''What is the capital of France?'',
        ground_truth = ''Paris'',
        original_metrics = Some (example_metrics (1/2) 120),
        reranked_metrics = Some (example_metrics (3/4) 80) \<rparr>,
      \<lparr> question_id = ''q2'', question = ''Where is Paris?'', ground_truth = ''In France'',
        original_metrics = None,
        reranked_metrics = Some (example_metrics (1/4) 100) \<rparr>,
      \<lparr> question_id = ''q3'', question = ''Where is Berlin?'', ground_truth = ''In Germany'',
        original_metrics = Some (example_metrics 0 110),
        reranked_metrics = None \<rparr>]"

section \<open>Properties of the metrics engine\<close>

subsection \<open>Strings\<close>

lemma isspace_lower_char: "isspace (lower_char c) = isspace c"
  by (auto simp: isspace_def lower_char_def Let_def)

lemma lower_simps:
  "lower [] = []" "lower (c # cs) = lower_char c # lower cs"
  "lower (xs @ ys) = lower xs @ lower ys" "(lower xs = []) = (xs = [])"
  by (simp_all add: lower_def)

lemma split_ws_lower: "split_ws (lower w) (lower s) = map lower (split_ws w s)"
proof (induction s arbitrary: w)
  case Nil
  then show ?case by (simp add: lower_simps)
next
  case (Cons c cs)
  show ?case
    using Cons.IH[of "[]"] Cons.IH[of "w @ [c]"]
    by (simp add: lower_simps isspace_lower_char)
qed

lemma split_lower: "split (lower s) = map lower (split s)"
  using split_ws_lower[of "[]" s] by (simp add: split_def lower_simps)

lemma length_lower: "length (lower s) = length s"
  by (simp add: lower_def)

lemma sum_ones: "(\<Sum>x\<leftarrow>xs. (1::nat)) = length xs"
  by (induction xs) auto

text \<open>\<^const>\<open>str_in\<close> is occurrence as a contiguous substring.\<close>

lemma str_in_iff: "str_in t s \<longleftrightarrow> (\<exists>ps ss. s = ps @ t @ ss)"
proof (induction s)
  case Nil
  then show ?case by auto
next
  case (Cons c cs)
  have "take (length t) (c # cs) = t \<longleftrightarrow> (\<exists>ss. c # cs = t @ ss)"
    by (metis append_eq_conv_conj)
  moreover have "(\<exists>ps ss. c # cs = ps @ t @ ss) \<longleftrightarrow>
                 (\<exists>ss. c # cs = t @ ss) \<or> (\<exists>ps ss. cs = ps @ t @ ss)"
    apply (rule iffI)
     apply (metis append_Nil append_eq_Cons_conv)
    apply (metis append_Cons append_Nil)
    done
  ultimately show ?case using Cons.IH by simp
qed

subsection \<open>Faithfulness\<close>

lemma count_supported_filter:
  "count_supported w ctx claims n = n + length [c \<leftarrow> claims. claim_supported w ctx c]"
  by (induction claims arbitrary: n) auto

text \<open>
  Claim C7. Faithfulness is the number of extracted claims that the judge verifies against
  the concatenated contexts, divided by the number of extracted claims; with no extracted
  claim the score is exactly 1.
\<close>

theorem calculate_faithfulness_ratio:
  "calculate_faithfulness w ans contexts =
     (let claims = extract_claims w ans;
          entailed = [c \<leftarrow> claims. claim_supported w (join nl contexts) c]
      in if claims = [] then 1 else real (length entailed) / real (length claims))"
  by (simp add: calculate_faithfulness_def Let_def count_supported_filter)

theorem calculate_faithfulness_ratio_witness:
  "calculate_faithfulness demo_world ''Paris is the capital of France [1].''
     (chunk_contexts demo_passages) = 1 / 2"
proof -
  have "(let claims = extract_claims demo_world ''Paris is the capital of France [1].'';
             entailed = [c \<leftarrow> claims.
                           claim_supported demo_world (join nl (chunk_contexts demo_passages)) c]
         in if claims = [] then 1 else real (length entailed) / real (length claims)) = 1 / 2"
    by code_simp
  then show ?thesis
    using calculate_faithfulness_ratio[of demo_world "''Paris is the capital of France [1].''"
            "chunk_contexts demo_passages"]
    by simp
qed

subsection \<open>Context recall\<close>

text \<open>
  Claim C9. Context recall is the number of the first five whitespace-separated words of
  the ground truth that occur, ignoring case, in the contexts joined by a space, divided by
  the number of those words (0 when the ground truth has no word); for an empty context list
  it is exactly 0.
\<close>

theorem calculate_context_recall_ratio:
  "calculate_context_recall gt contexts =
     (let words = take 5 (split gt);
          matched = [t \<leftarrow> words. str_in (lower t) (lower (join '' '' contexts))]
      in if contexts = [] \<or> words = [] then 0
         else real (length matched) / real (length words))"
proof -
  have *: "take 5 (split (lower gt)) = map lower (take 5 (split gt))"
    by (simp add: split_lower take_map)
  show ?thesis
    unfolding calculate_context_recall_def Let_def * sum_ones
    by (auto simp: filter_map o_def)
qed

theorem calculate_context_recall_ratio_witness:
  "calculate_context_recall ''Paris lies in France'' (chunk_contexts demo_passages) = 3 / 4 \<and>
   calculate_context_recall ''Paris lies in France'' [] = 0"
proof -
  have "(let words = take 5 (split ''Paris lies in France'');
             matched = [t \<leftarrow> words.
                          str_in (lower t) (lower (join '' '' (chunk_contexts demo_passages)))]
         in if chunk_contexts demo_passages = [] \<or> words = [] then 0
            else real (length matched) / real (length words)) = 3 / 4"
    by code_simp
  then show ?thesis
    using calculate_context_recall_ratio[of "''Paris lies in France''" "chunk_contexts demo_passages"]
          calculate_context_recall_ratio[of "''Paris lies in France''" "[]"]
    by simp
qed

subsection \<open>Answer correctness\<close>

lemma term_coverage_fraction: "term_coverage ans gt = covered_fraction ans gt"
  unfolding term_coverage_def covered_fraction_def key_terms_of_def Let_def split_lower sum_ones
  by (auto simp: filter_map o_def length_lower)

text \<open>
  Claim C8. When the fraction of ground-truth words longer than three characters that occur,
  ignoring case, in the answer is at least 0.8, the advanced correctness is the maximum of
  0.8 and 0.3 F1 + 0.7 similarity, hence at least 0.8; otherwise it is
  0.5 F1 + 0.5 similarity.
\<close>

theorem advanced_correctness_rule:
  "(let c = calculate_answer_correctness w ans gt;
        blend_high = 0.3 * f1_score c + 0.7 * semantic_similarity c;
        blend_even = 0.5 * f1_score c + 0.5 * semantic_similarity c
    in if covered_fraction ans gt \<ge> 0.8
       then advanced_correctness c = max 0.8 blend_high \<and> advanced_correctness c \<ge> 0.8
       else advanced_correctness c = blend_even)"
  by (simp add: calculate_answer_correctness_def Let_def term_coverage_fraction mult.commute)

theorem advanced_correctness_rule_witness:
  "covered_fraction ''Yes, Paris is the capital of France [1].''
      ''Paris is the capital of France'' \<ge> 0.8 \<and>
   advanced_correctness (calculate_answer_correctness demo_world
      ''Yes, Paris is the capital of France [1].'' ''Paris is the capital of France'') = 0.8 \<and>
   \<not> covered_fraction ''Berlin'' ''Paris is the capital of France'' \<ge> 0.8 \<and>
   advanced_correctness (calculate_answer_correctness demo_world
      ''Berlin'' ''Paris is the capital of France'') = 3 / 4"
proof -
  let ?a = "''Yes, Paris is the capital of France [1].''"
  let ?g = "''Paris is the capital of France''"
  have c1: "covered_fraction ?a ?g \<ge> 0.8" by code_simp
  have c2: "\<not> covered_fraction ''Berlin'' ?g \<ge> 0.8" by code_simp
  have v1: "f1_score (calculate_answer_correctness demo_world ?a ?g) = 1
            \<and> semantic_similarity (calculate_answer_correctness demo_world ?a ?g) = 1 / 2"
    by code_simp
  have v2: "f1_score (calculate_answer_correctness demo_world ''Berlin'' ?g) = 1
            \<and> semantic_similarity (calculate_answer_correctness demo_world ''Berlin'' ?g) = 1 / 2"
    by code_simp
  show ?thesis
    using advanced_correctness_rule[of demo_world ?a ?g]
          advanced_correctness_rule[of demo_world "''Berlin''" ?g] c1 c2 v1 v2
    by (simp add: Let_def)
qed

subsection \<open>Ranges\<close>

lemma sum_list_bounds:
  fixes xs :: "real list"
  assumes "\<And>x. x \<in> set xs \<Longrightarrow> lo \<le> x \<and> x \<le> hi"
  shows "lo * real (length xs) \<le> sum_list xs \<and> sum_list xs \<le> hi * real (length xs)"
  using assms by (induction xs) (auto simp: algebra_simps add_mono)

lemma mean_bounds:
  assumes "xs \<noteq> []" and "\<And>x. x \<in> set xs \<Longrightarrow> lo \<le> x \<and> x \<le> hi"
  shows "lo \<le> mean xs \<and> mean xs \<le> hi"
proof -
  have n: "0 < real (length xs)" using assms(1) by simp
  from sum_list_bounds[OF assms(2)]
  have "lo * real (length xs) \<le> sum_list xs" "sum_list xs \<le> hi * real (length xs)" by auto
  with n show ?thesis
    by (simp add: mean_def pos_le_divide_eq pos_divide_le_eq)
qed

lemma faithfulness_range:
  "0 \<le> calculate_faithfulness w ans contexts \<and> calculate_faithfulness w ans contexts \<le> 1"
proof -
  let ?cs = "extract_claims w ans"
  have "length [c \<leftarrow> ?cs. claim_supported w (join nl contexts) c] \<le> length ?cs"
    by (rule length_filter_le)
  then show ?thesis
    by (simp add: calculate_faithfulness_def Let_def count_supported_filter divide_le_eq_1)
qed

lemma precision_range:
  "0 \<le> calculate_context_precision w q contexts k \<and>
   calculate_context_precision w q contexts k \<le> 1"
proof -
  have "0 \<le> (\<Sum>pos\<leftarrow>ps. 1 / real pos)" for ps :: "nat list"
    by (induction ps) auto
  then show ?thesis
    by (simp add: calculate_context_precision_def Let_def)
qed

lemma recall_range:
  "0 \<le> calculate_context_recall gt contexts \<and> calculate_context_recall gt contexts \<le> 1"
proof -
  let ?ts = "take 5 (split (lower gt))"
  have "length [t \<leftarrow> ?ts. str_in t (lower (join '' '' contexts))] \<le> length ?ts"
    by (rule length_filter_le)
  then show ?thesis
    unfolding calculate_context_recall_def Let_def sum_ones
    by (simp add: divide_le_eq_1)
qed

lemma relevancy_range:
  assumes "\<And>a b. lo \<le> cos_sim w a b \<and> cos_sim w a b \<le> hi" and "lo \<le> 1/2" and "1/2 \<le> hi"
  shows "lo \<le> calculate_answer_relevancy w q ans \<and> calculate_answer_relevancy w q ans \<le> hi"
proof -
  have "lo \<le> mean (map (cos_sim w q) qs) \<and> mean (map (cos_sim w q) qs) \<le> hi"
    if "qs \<noteq> []" for qs
    using that assms(1) by (intro mean_bounds) auto
  then show ?thesis
    using assms(2,3) by (simp add: calculate_answer_relevancy_def Let_def)
qed

lemma fact_f1_range: "0 \<le> fact_f1 af tf \<and> fact_f1 af tf \<le> 1"
proof -
  have key: "0 \<le> 2 * p * r / (p + r) \<and> 2 * p * r / (p + r) \<le> 1"
    if "0 \<le> p" "p \<le> 1" "0 \<le> r" "r \<le> 1" "0 < p + r" for p r :: real
  proof -
    have "p * r \<le> p * 1" "p * r \<le> 1 * r"
      using that by (intro mult_left_mono mult_right_mono; simp)+
    then have "2 * p * r \<le> p + r" by simp
    with that show ?thesis by (simp add: divide_le_eq_1)
  qed
  have frac: "0 \<le> (if a + b > 0 then real a / real (a + b) else 0) \<and>
              (if a + b > 0 then real a / real (a + b) else 0) \<le> 1" for a b :: nat
    by (simp add: divide_le_eq_1)
  show ?thesis
    unfolding fact_f1_def Let_def
    using key frac by (smt (verit, best))
qed

lemma standard_range:
  assumes "lo \<le> cos_sim w ans gt" "cos_sim w ans gt \<le> 1"
  shows "lo / 2 \<le> standard_correctness (calculate_answer_correctness w ans gt) \<and>
         standard_correctness (calculate_answer_correctness w ans gt) \<le> 1"
  using assms fact_f1_range[of "extract_facts w ans" "extract_facts w gt"]
  by (simp add: calculate_answer_correctness_def Let_def)

lemma advanced_range:
  assumes "lo \<le> cos_sim w ans gt" "cos_sim w ans gt \<le> 1" "lo \<le> 0"
  shows "lo / 2 \<le> advanced_correctness (calculate_answer_correctness w ans gt) \<and>
         advanced_correctness (calculate_answer_correctness w ans gt) \<le> 1"
  using assms fact_f1_range[of "extract_facts w ans" "extract_facts w gt"]
  by (auto simp: calculate_answer_correctness_def Let_def max_def)

text \<open>
  Claim C6, as the code has it. Faithfulness, context precision and context recall always
  lie in [0, 1]. Answer relevancy and the two correctness variants are built from cosine
  similarities that are not clamped: with similarities in [-1, 1], relevancy lies in
  [-1, 1] and both correctness variants in [-1/2, 1]; they lie in [0, 1] whenever the
  similarities do.
\<close>

theorem metric_ranges:
  "(0 \<le> calculate_faithfulness w ans contexts \<and> calculate_faithfulness w ans contexts \<le> 1) \<and>
   (0 \<le> calculate_context_precision w q contexts k \<and>
    calculate_context_precision w q contexts k \<le> 1) \<and>
   (0 \<le> calculate_context_recall gt contexts \<and> calculate_context_recall gt contexts \<le> 1) \<and>
   ((\<forall>a b. - 1 \<le> cos_sim w a b \<and> cos_sim w a b \<le> 1) \<longrightarrow>
      (- 1 \<le> calculate_answer_relevancy w q ans \<and> calculate_answer_relevancy w q ans \<le> 1) \<and>
      (- 1 / 2 \<le> standard_correctness (calculate_answer_correctness w ans gt) \<and>
       standard_correctness (calculate_answer_correctness w ans gt) \<le> 1) \<and>
      (- 1 / 2 \<le> advanced_correctness (calculate_answer_correctness w ans gt) \<and>
       advanced_correctness (calculate_answer_correctness w ans gt) \<le> 1)) \<and>
   ((\<forall>a b. 0 \<le> cos_sim w a b \<and> cos_sim w a b \<le> 1) \<longrightarrow>
      (0 \<le> calculate_answer_relevancy w q ans \<and> calculate_answer_relevancy w q ans \<le> 1) \<and>
      (0 \<le> standard_correctness (calculate_answer_correctness w ans gt) \<and>
       standard_correctness (calculate_answer_correctness w ans gt) \<le> 1) \<and>
      (0 \<le> advanced_correctness (calculate_answer_correctness w ans gt) \<and>
       advanced_correctness (calculate_answer_correctness w ans gt) \<le> 1))"
proof -
  have neg:
    "(- 1 \<le> calculate_answer_relevancy w q ans \<and> calculate_answer_relevancy w q ans \<le> 1) \<and>
     (- 1 / 2 \<le> standard_correctness (calculate_answer_correctness w ans gt) \<and>
      standard_correctness (calculate_answer_correctness w ans gt) \<le> 1) \<and>
     (- 1 / 2 \<le> advanced_correctness (calculate_answer_correctness w ans gt) \<and>
      advanced_correctness (calculate_answer_correctness w ans gt) \<le> 1)"
    if h: "\<forall>a b. - 1 \<le> cos_sim w a b \<and> cos_sim w a b \<le> 1"
    using relevancy_range[of "- 1" w 1 q ans] standard_range[of "- 1" w ans gt]
          advanced_range[of "- 1" w ans gt] h by simp
  have pos:
    "(0 \<le> calculate_answer_relevancy w q ans \<and> calculate_answer_relevancy w q ans \<le> 1) \<and>
     (0 \<le> standard_correctness (calculate_answer_correctness w ans gt) \<and>
      standard_correctness (calculate_answer_correctness w ans gt) \<le> 1) \<and>
     (0 \<le> advanced_correctness (calculate_answer_correctness w ans gt) \<and>
      advanced_correctness (calculate_answer_correctness w ans gt) \<le> 1)"
    if h: "\<forall>a b. 0 \<le> cos_sim w a b \<and> cos_sim w a b \<le> 1"
    using relevancy_range[of 0 w 1 q ans] standard_range[of 0 w ans gt]
          advanced_range[of 0 w ans gt] h by simp
  show ?thesis
    using faithfulness_range[of w ans contexts] precision_range[of w q contexts k]
          recall_range[of gt contexts] neg pos
    by blast
qed

theorem metric_ranges_witness:
  "(\<forall>a b. 0 \<le> cos_sim demo_world a b \<and> cos_sim demo_world a b \<le> 1) \<and>
   0 \<le> calculate_answer_relevancy demo_world ''Which river crosses Paris?''
          ''Paris is the capital of France [1].'' \<and>
   calculate_answer_relevancy demo_world ''Which river crosses Paris?''
          ''Paris is the capital of France [1].'' \<le> 1 \<and>
   0 \<le> advanced_correctness (calculate_answer_correctness demo_world
          ''Paris is the capital of France [1].'' ''Paris lies in France'') \<and>
   advanced_correctness (calculate_answer_correctness demo_world
          ''Paris is the capital of France [1].'' ''Paris lies in France'') \<le> 1"
proof -
  have h: "\<forall>a b. 0 \<le> cos_sim demo_world a b \<and> cos_sim demo_world a b \<le> 1"
    by (simp add: demo_world_def)
  then have h': "\<forall>a b. - 1 \<le> cos_sim demo_world a b \<and> cos_sim demo_world a b \<le> 1"
    by (smt (verit))
  show ?thesis
    using h h' metric_ranges[of demo_world "''Paris is the capital of France [1].''" "[]"
            "''Which river crosses Paris?''" 5 "''Paris lies in France''"]
    by blast
qed

text \<open>
  Claim C6 as stated fails: under an embedder with a negative cosine similarity the answer
  relevancy is -1/10.
\<close>

theorem metric_ranges_counterexample:
  "\<not> (0 \<le> calculate_answer_relevancy cold_world ''Which river crosses Paris?''
              ''Paris is the capital of France [1].'' \<and>
       calculate_answer_relevancy cold_world ''Which river crosses Paris?''
              ''Paris is the capital of France [1].'' \<le> 1)"
  by code_simp

section \<open>Properties of the batch evaluator\<close>

subsection \<open>One question\<close>

lemma chunk_contexts_all_dict: "list_all is_dict cs \<Longrightarrow> length (chunk_contexts cs) = length cs"
  by (simp add: chunk_contexts_def list_all_iff)

text \<open>
  A variant is scored exactly when its result is usable: a passage that is no dict makes
  \<^const>\<open>generate_answer\<close> raise, which the loop body catches.
\<close>

lemma system_metrics_None_iff: "system_metrics w q gt r = None \<longleftrightarrow> \<not> usable r"
proof (cases "chunks r")
  case NotAList
  then show ?thesis by (simp add: system_metrics_def usable_def)
next
  case (ChunkList cs)
  show ?thesis
  proof (cases "list_all is_dict cs")
    case True
    then have "chunk_contexts cs = [] \<longleftrightarrow> cs = []"
      using chunk_contexts_all_dict[OF True] by (metis length_0_conv)
    with True ChunkList show ?thesis
      by (simp add: system_metrics_def usable_def generate_answer_def Let_def)
  next
    case False
    with ChunkList show ?thesis
      by (simp add: system_metrics_def usable_def generate_answer_def Let_def)
  qed
qed

lemma evaluate_single_question_Inr:
  assumes "qd ''id'' = Some qid" "qd ''question'' = Some q" "qd ''ground_truth'' = Some gt"
      and "retrieve w q f u 10 = Inr results"
  shows "evaluate_single_question w qd f u =
           Inr \<lparr> question_id = qid, question = q, ground_truth = gt,
                 original_metrics = system_metrics w q gt (results Original),
                 reranked_metrics = system_metrics w q gt (results Reranked) \<rparr>"
  using assms
  by (simp add: evaluate_single_question_def set_metrics_def split: option.splits)

text \<open>
  Claim C10. For a question dict with the keys \<^verbatim>\<open>id\<close>, \<^verbatim>\<open>question\<close> and \<^verbatim>\<open>ground_truth\<close>,
  \<^const>\<open>evaluate_single_question\<close> returns a record whenever the retrieval call returns
  (it raises only what that call raises), and the record carries the three inputs, also
  when neither variant is usable and no metrics are attached.
\<close>

theorem evaluate_single_question_identity:
  assumes "qd ''id'' = Some qid" and "qd ''question'' = Some q" and "qd ''ground_truth'' = Some gt"
  shows "case retrieve w q f u 10 of
           Inl e \<Rightarrow> evaluate_single_question w qd f u = Inl e
         | Inr results \<Rightarrow>
             (\<exists>ev. evaluate_single_question w qd f u = Inr ev \<and>
                   question_id ev = qid \<and> question ev = q \<and> ground_truth ev = gt \<and>
                   (\<not> usable (results Original) \<and> \<not> usable (results Reranked) \<longrightarrow>
                      original_metrics ev = None \<and> reranked_metrics ev = None))"
proof (cases "retrieve w q f u 10")
  case (Inl e)
  with assms show ?thesis by (simp add: evaluate_single_question_def)
next
  case (Inr results)
  show ?thesis
    using evaluate_single_question_Inr[OF assms Inr] Inr
    by (simp add: system_metrics_None_iff)
qed

theorem evaluate_single_question_identity_witness:
  "evaluate_single_question down_world (demo_questions ! 0) [] [] =
     Inr \<lparr> question_id = ''q1'', question = ''What is the capital of France?'',
           ground_truth = ''Paris is the capital of France'',
           original_metrics = None, reranked_metrics = None \<rparr>"
proof -
  have k: "(demo_questions ! 0) ''id'' = Some ''q1''"
          "(demo_questions ! 0) ''question'' = Some ''What is the capital of France?''"
          "(demo_questions ! 0) ''ground_truth'' = Some ''Paris is the capital of France''"
    by (simp_all add: demo_questions_def mk_question_def)
  show ?thesis
    using evaluate_single_question_identity[OF k, of down_world "[]" "[]"]
    by (auto simp: down_world_def demo_world_def usable_def truthy_def)
qed

subsection \<open>The batch\<close>






subsection \<open>The report\<close>






lemma generate_report_means:
  assumes "generate_report w df = Inr rep"
  shows "system_means Original df = Inr (rep_original_metrics rep)"
    and "system_means Reranked df = Inr (rep_reranked_metrics rep)"
    and "rep_improvements rep =
           map (\<lambda>metric. (metric, improvement_of (rep_original_metrics rep metric)
                                                (rep_reranked_metrics rep metric)))
             (filter (\<lambda>metric. metric \<noteq> ResponseTimeMs) numeric_columns)"
  using assms
  by (auto simp: generate_report_def Let_def split: sum.splits)

lemma projr_collapse: "\<not> isl x \<Longrightarrow> x = Inr (projr x)"
  by (cases x) simp_all



lemma map_of_improvements:
  "c \<noteq> ResponseTimeMs \<Longrightarrow>
   map_of (map (\<lambda>metric. (metric, g metric))
             (filter (\<lambda>metric. metric \<noteq> ResponseTimeMs) numeric_columns)) c = Some (g c)"
  by (cases c) (simp_all add: numeric_columns_def)

text \<open>
  Claim C4. The percentage improvement computed from a pair of means is
  (reranked - original) / original * 100 when the original mean is not zero, 0 when both
  means are zero, and the infinite value when the original mean is zero and the reranked
  mean is not (a NaN mean included); it is the entry of the report for every numeric
  column other than the response time. No branch divides by zero.
\<close>

theorem percentage_improvement:
  "(a \<noteq> 0 \<longrightarrow> improvement_of (Some a) (Some b) = Percent ((b - a) / a * 100)) \<and>
   improvement_of (Some 0) (Some 0) = Percent 0 \<and>
   (b \<noteq> 0 \<longrightarrow> improvement_of (Some 0) (Some b) = Infinite) \<and>
   improvement_of (Some 0) None = Infinite \<and>
   (generate_report w df = Inr rep \<and> c \<noteq> ResponseTimeMs \<longrightarrow>
      map_of (rep_improvements rep) c =
        Some (improvement_of (rep_original_metrics rep c) (rep_reranked_metrics rep c)))"
proof -
  have "map_of (rep_improvements rep) c =
          Some (improvement_of (rep_original_metrics rep c) (rep_reranked_metrics rep c))"
    if "generate_report w df = Inr rep" "c \<noteq> ResponseTimeMs"
    using generate_report_means(3)[OF that(1)] map_of_improvements[OF that(2)] by simp
  then show ?thesis
    by (simp add: improvement_of_def)
qed

theorem percentage_improvement_witness:
  "improvement_of (Some 4) (Some 5) = Percent 25 \<and>
   improvement_of (Some 0) (Some 0) = Percent 0 \<and>
   improvement_of (Some 0) (Some 5) = Infinite \<and>
   map_of (rep_improvements
             (projr (generate_report demo_world (create_results_dataframe example_records))))
      Faithfulness = Some (Percent 100)"
proof -
  let ?rep = "projr (generate_report demo_world (create_results_dataframe example_records))"
  have "\<not> isl (generate_report demo_world (create_results_dataframe example_records))"
    by code_simp
  then have h: "generate_report demo_world (create_results_dataframe example_records) = Inr ?rep"
    by (rule projr_collapse)
  have v: "rep_original_metrics ?rep Faithfulness = Some (1 / 4)"
          "rep_reranked_metrics ?rep Faithfulness = Some (1 / 2)"
    by code_simp+
  show ?thesis
    using percentage_improvement[of 4 5 demo_world
            "create_results_dataframe example_records" ?rep Faithfulness]
          percentage_improvement[of "1 / 4" "1 / 2"] h v
    by simp
qed

lemma generate_report_unequal_raises:
  assumes "length (select_system Original rows) \<noteq> length (select_system Reranked rows)"
  shows "generate_report w (Frame rows) = Inl (ValueError ''unequal length arrays'')"
  using assms
  by (auto simp: generate_report_def system_means_def frame_rows_def ttest_rel_def Let_def)

text \<open>
  Claim C2 fails on the code. A batch without questions yields the frame without columns,
  on which \<^const>\<open>generate_report\<close> raises at its first line, before the guard for an
  empty frame further down is reached; and on records where the two variants have
  different numbers of rows (here one original row and two reranked rows) the paired test
  raises.
\<close>

theorem generate_report_raises:
  "batch_evaluate w [] f u = Inr (NoColumns, []) \<and>
   generate_report w NoColumns = Inl (KeyError ''system'') \<and>
   generate_report w (create_results_dataframe (take 2 example_records)) =
     Inl (ValueError ''unequal length arrays'')"
proof -
  have "create_results_dataframe (take 2 example_records) =
          Frame (concat (map result_rows (take 2 example_records)))"
    by (simp add: create_results_dataframe_def example_records_def result_rows_def
                  metrics_of_def)
  moreover have "length (select_system Original (concat (map result_rows (take 2 example_records))))
                 \<noteq> length (select_system Reranked (concat (map result_rows (take 2 example_records))))"
    by (simp add: example_records_def result_rows_def metrics_of_def select_system_def)
  ultimately show ?thesis
    using generate_report_unequal_raises
    by (simp add: generate_report_def batch_evaluate_def create_results_dataframe_def
                  system_means_def)
qed

subsection \<open>The paired test\<close>

text \<open>
  What the report code itself decides about significance: every returned report has an
  entry for each of the four core metrics; its statistic and p-value are whatever the
  t test returns for the reranked and the original column, and the flag is
  \<^verbatim>\<open>p_value < 0.05\<close>, false for a NaN. The numbers themselves are the library's.
\<close>

lemma significance_of_entry:
  assumes "significance_of w rows ms = Inr sig" and "m \<in> set ms"
  shows "\<exists>sg. map_of sig m = Some sg \<and>
           (t_stat sg, p_value sg) =
             ttest_stat w (map (cell m) (select_system Reranked rows))
                          (map (cell m) (select_system Original rows)) \<and>
           significant sg = nan_less (p_value sg) 0.05"
  using assms
proof (induction ms arbitrary: sig)
  case Nil
  then show ?case by simp
next
  case (Cons a ms)
  from Cons.prems(1) obtain t p rest where
    tt: "ttest_rel w (map (cell a) (select_system Reranked rows))
                     (map (cell a) (select_system Original rows)) = Inr (t, p)"
    and rest: "significance_of w rows ms = Inr rest"
    and sig: "sig = (a, \<lparr> t_stat = t, p_value = p, significant = nan_less p 0.05 \<rparr>) # rest"
    by (auto simp: Let_def split: sum.splits prod.splits)
  show ?case
  proof (cases "m = a")
    case True
    with tt sig show ?thesis
      by (auto simp: ttest_rel_def split: if_splits)
  next
    case False
    with Cons.prems(2) have "m \<in> set ms" by simp
    from Cons.IH[OF rest this] False sig show ?thesis by simp
  qed
qed

lemma significance_threshold:
  assumes "generate_report w df = Inr rep"
      and "m \<in> set [Faithfulness, AnswerRelevancy, ContextPrecision, ContextRecall]"
  shows "\<exists>sg. map_of (statistical_significance rep) m = Some sg \<and>
           (t_stat sg, p_value sg) =
             ttest_stat w (map (cell m) (select_system Reranked (frame_rows df)))
                          (map (cell m) (select_system Original (frame_rows df))) \<and>
           significant sg = nan_less (p_value sg) 0.05"
proof -
  from assms(1) obtain sig where
    "significance_of w (frame_rows df)
       [Faithfulness, AnswerRelevancy, ContextPrecision, ContextRecall] = Inr sig"
    "statistical_significance rep = sig"
    by (auto simp: generate_report_def Let_def split: sum.splits)
  with significance_of_entry[OF this(1) assms(2)] show ?thesis by simp
qed

end
